theory Spec2Isabelle
  imports Complex_Main
begin

section \<open>Interstellar reddening and color excess\<close>

text \<open>
  The notebook \<^verbatim>\<open>color-excess.ipynb\<close> computes with NumPy arrays of double precision
  numbers. The formulas for magnitudes, extinction curves and color excess are stated over
  \<^typ>\<open>real\<close>, so rounding and overflow are idealised away there. The array arithmetic of
  reddening and dereddening is modelled in binary64: every product and quotient is rounded
  to the nearest double, ties to even, with gradual underflow and overflow to infinity.
  Arrays are one-dimensional and modelled by lists; a scalar is a list of length one.
\<close>

subsection \<open>Errors and array values\<close>

datatype error =
    ValueError
  | ZeroTransmission
  | NonPositiveFlux
  | ParameterOutOfRange
  | WavelengthOutOfRange

text \<open>
  An entry of an array: a finite double, or one of \<^verbatim>\<open>inf\<close>, \<^verbatim>\<open>-inf\<close>, \<^verbatim>\<open>nan\<close>, which
  NumPy stores in the array (with a RuntimeWarning) instead of raising.
\<close>

datatype npfloat = Finite real | NonFinite

subsection \<open>Binary64 rounding\<close>

text \<open>Rounding to the nearest integer, a tie going to the even neighbour.\<close>

definition rne :: "real \<Rightarrow> int" where
  "rne y = (let f = \<lfloor>y\<rfloor>; d = y - of_int f in
            if d < 1/2 then f else if 1/2 < d then f + 1 else if even f then f else f + 1)"

text \<open>
  The exponent of the last place of the doubles around \<open>x\<close>: 52 below the binary
  exponent of \<open>x\<close>, and \<open>-1074\<close> for every \<open>x\<close> below the smallest normal number
  \<open>2^-1022\<close>.
\<close>

definition ulp_exponent :: "real \<Rightarrow> int" where
  "ulp_exponent x = max \<lfloor>log 2 \<bar>x\<bar>\<rfloor> (-1022) - 52"

text \<open>The nearest number with a 53 bit significand, the exponent not bounded above.\<close>

definition rnd :: "real \<Rightarrow> real" where
  "rnd x = (if x = 0 then 0
            else of_int (rne (x / 2 powr of_int (ulp_exponent x))) * 2 powr of_int (ulp_exponent x))"

text \<open>The largest finite double, \<open>(2 - 2^-52) * 2^1023\<close>.\<close>

definition max_double :: real where
  "max_double = (2 - 2 powr (-52)) * 2 powr 1023"

text \<open>
  The double that stores the exact result \<open>x\<close> of an operation: rounded, and infinite
  when the rounded value is beyond the largest finite double.
\<close>

definition fl :: "real \<Rightarrow> npfloat" where
  "fl x = (if max_double < \<bar>rnd x\<bar> then NonFinite else Finite (rnd x))"

text \<open>
  The operators \<^verbatim>\<open>*\<close> and \<^verbatim>\<open>/\<close> on one entry of an array and one finite entry of the
  transmission array. An infinite or undefined entry stays so; a zero divisor gives
  \<^verbatim>\<open>inf\<close>, \<^verbatim>\<open>-inf\<close> or \<^verbatim>\<open>nan\<close>, never an exception.
\<close>

definition multiply :: "npfloat \<Rightarrow> real \<Rightarrow> npfloat" where
  "multiply x y = (case x of NonFinite \<Rightarrow> NonFinite | Finite a \<Rightarrow> fl (a * y))"

definition true_divide :: "npfloat \<Rightarrow> real \<Rightarrow> npfloat" where
  "true_divide x y =
     (case x of NonFinite \<Rightarrow> NonFinite
      | Finite a \<Rightarrow> if y = 0 then NonFinite else fl (a / y))"

text \<open>
  A binary operator on two one-dimensional arrays: entry by entry when the lengths agree,
  an array of length one is stretched over the other, and any other pair of lengths raises
  \<^verbatim>\<open>ValueError\<close> (operands could not be broadcast together).
\<close>

definition broadcast :: "('a \<Rightarrow> 'b \<Rightarrow> 'c) \<Rightarrow> 'a list \<Rightarrow> 'b list \<Rightarrow> error + 'c list" where
  "broadcast f xs ys =
     (if length xs = length ys then Inr (map2 f xs ys)
      else if length ys = 1 then Inr (map (\<lambda>x. f x (hd ys)) xs)
      else if length xs = 1 then Inr (map (\<lambda>y. f (hd xs) y) ys)
      else Inl ValueError)"

subsection \<open>Cell 24: magnitude to flux\<close>

text \<open>
  \<^verbatim>\<open>Uflux = zeroflux_U * 10.0 ** (-0.4 * Umag)\<close>; \<^verbatim>\<open>Bflux\<close> and \<^verbatim>\<open>Vflux\<close> are the same
  expression on the B and V zero points and magnitudes.
\<close>

definition Uflux :: "real \<Rightarrow> real \<Rightarrow> real" where
  "Uflux zeroflux_U Umag = zeroflux_U * 10 powr (-0.4 * Umag)"

text \<open>
  Modelled from the spec: the conversion of a flux to a magnitude, which the notebook
  never writes out (it leaves it to \<^verbatim>\<open>effstim\<close> of synphot). The spec, section 4.1:
  \<^verbatim>\<open>mag = -2.5 * log10(flux / zeroFlux)\<close>, failing with \<^verbatim>\<open>NonPositiveFlux\<close> if
  \<^verbatim>\<open>flux <= 0\<close>.
\<close>

definition flux_to_mag :: "real \<Rightarrow> real \<Rightarrow> error + real" where
  "flux_to_mag zeroFlux flux =
     (if flux \<le> 0 then Inl NonPositiveFlux else Inr (-2.5 * log 10 (flux / zeroFlux)))"

subsection \<open>Cells 29, 30 and 40: reddening and dereddening\<close>

text \<open>
  Cell 29: to extinguish (redden) a spectrum, multiply by \<^verbatim>\<open>ext.extinguish\<close>; cell 40 does
  so with \<^verbatim>\<open>sp_norm * ex\<close>. The transmission array \<open>thru\<close> is what \<^verbatim>\<open>ext.extinguish\<close>
  returned on the wavelength grid, an array of finite doubles.
\<close>

definition redden :: "npfloat list \<Rightarrow> real list \<Rightarrow> error + npfloat list" where
  "redden flux thru = broadcast multiply flux thru"

text \<open>
  Cell 30: \<^verbatim>\<open>UVflux / ext.extinguish(wav_UV, Ebv=Ebv)\<close>, and the same for the U, B and V
  fluxes. The notebook divides without looking at the divisor.
\<close>

definition deredden :: "npfloat list \<Rightarrow> real list \<Rightarrow> error + npfloat list" where
  "deredden flux thru = broadcast true_divide flux thru"

subsection \<open>The extinction law engine\<close>

text \<open>
  Modelled from the spec: an extinction law of \<^verbatim>\<open>dust_extinction\<close> (\<^verbatim>\<open>CCM89\<close>, \<^verbatim>\<open>F99\<close>),
  which the notebook imports and whose code is not part of it. The spec, section 3: a
  function \<open>A(\<lambda>)/A(V)\<close> of the wavelength, parameterized by \<open>R(V)\<close>, with a valid range of
  \<open>R(V)\<close> and a valid range of wavelengths.
\<close>

record law =
  Rv_range :: "real \<times> real"
  wavelength_range :: "real \<times> real"
  axav :: "real \<Rightarrow> real \<Rightarrow> real"

text \<open>
  Modelled from the spec: \<^verbatim>\<open>evaluate(law, Rv, wavelengths)\<close> of section 4.2, the call
  \<^verbatim>\<open>ext(wav)\<close> of the notebook. Of the two policies the spec allows for an \<open>R(V)\<close> outside
  the range, this is the failing one; no extrapolation flag is set.
\<close>

definition evaluate :: "law \<Rightarrow> real \<Rightarrow> real list \<Rightarrow> error + real list" where
  "evaluate l Rv wavelengths =
     (if Rv < fst (Rv_range l) \<or> snd (Rv_range l) < Rv then Inl ParameterOutOfRange
      else if \<exists>w \<in> set wavelengths. w < fst (wavelength_range l) \<or> snd (wavelength_range l) < w
        then Inl WavelengthOutOfRange
      else Inr (map (axav l Rv) wavelengths))"

text \<open>
  Modelled from the spec: \<^verbatim>\<open>extinguish(law, Rv, Ebv, wavelengths)\<close> of section 4.2, the
  call \<^verbatim>\<open>ext.extinguish(wav, Ebv=Ebv)\<close> of the notebook, computing
  \<^verbatim>\<open>10^(-0.4 * Rv * Ebv * A(lambda)/A(V))\<close>.
\<close>

definition extinguish :: "law \<Rightarrow> real \<Rightarrow> real \<Rightarrow> real list \<Rightarrow> error + real list" where
  "extinguish l Rv Ebv wavelengths =
     (case evaluate l Rv wavelengths of
        Inl e \<Rightarrow> Inl e
      | Inr a \<Rightarrow> Inr (map (\<lambda>alav. 10 powr (-0.4 * Rv * Ebv * alav)) a))"

text \<open>
  A sample law for evaluating at concrete inputs: \<open>A(\<lambda>)/A(V) = 0.55 / \<lambda>\<close> for every
  \<open>R(V)\<close> between 2 and 6 and every wavelength between 0.1 and 3.3 microns. It is 1 at
  0.55 microns.
\<close>

definition inverse_wavelength_law :: law where
  "inverse_wavelength_law =
     \<lparr>Rv_range = (2, 6), wavelength_range = (1/10, 33/10), axav = (\<lambda>Rv w. (55/100) / w)\<rparr>"

subsection \<open>Cell 44 and cell 47: extinction and color excess\<close>

text \<open>
  \<^verbatim>\<open>Av_calc = sp_stim - sp_stim_before\<close>: the magnitude with dust minus the magnitude
  without dust, both through the V band.
\<close>

definition Av_calc :: "real \<Rightarrow> real \<Rightarrow> real" where
  "Av_calc sp_stim sp_stim_before = sp_stim - sp_stim_before"

text \<open>
  The loop body of cell 47, \<^verbatim>\<open>color_excess = obs_effstim - obs_i_effstim - Av_calc\<close>.
  Python's subtraction associates to the left.
\<close>

definition color_excess :: "real \<Rightarrow> real \<Rightarrow> real \<Rightarrow> real" where
  "color_excess obs_effstim obs_i_effstim av = (obs_effstim - obs_i_effstim) - av"

section \<open>Properties\<close>

subsection \<open>Magnitudes and fluxes\<close>

lemma Uflux_pos: "0 < z \<Longrightarrow> 0 < Uflux z m"
  by (simp add: Uflux_def)

lemma log_Uflux: "0 < z \<Longrightarrow> -2.5 * log 10 (Uflux z m / z) = m"
  by (simp add: Uflux_def)

lemma Uflux_log: "0 < z \<Longrightarrow> 0 < f \<Longrightarrow> Uflux z (-2.5 * log 10 (f / z)) = f"
  by (simp add: Uflux_def)

text \<open>
  Claim C8. For every zero-point flux above zero and every magnitude, the flux is
  \<open>zeroFlux * 10^(-0.4 * mag)\<close>, and the conversion back, \<open>-2.5 * log10(flux / zeroFlux)\<close>,
  is its inverse in both directions: a magnitude converted to a flux and back is the
  magnitude, and a positive flux converted to a magnitude and back is the flux. Converting
  to a magnitude fails with \<open>NonPositiveFlux\<close> exactly when the flux is at most zero.
\<close>

theorem magnitude_flux_inverse:
  assumes "0 < zeroFlux"
  shows "Uflux zeroFlux mag = zeroFlux * 10 powr (-0.4 * mag)
    \<and> flux_to_mag zeroFlux (Uflux zeroFlux mag) = Inr mag
    \<and> (\<forall>flux. 0 < flux \<longrightarrow>
          flux_to_mag zeroFlux flux = Inr (-2.5 * log 10 (flux / zeroFlux))
          \<and> Uflux zeroFlux (-2.5 * log 10 (flux / zeroFlux)) = flux)
    \<and> (\<forall>flux. flux_to_mag zeroFlux flux = Inl NonPositiveFlux \<longleftrightarrow> flux \<le> 0)"
proof -
  have "Uflux zeroFlux mag = zeroFlux * 10 powr (-0.4 * mag)"
    by (simp add: Uflux_def)
  moreover have "flux_to_mag zeroFlux (Uflux zeroFlux mag) = Inr mag"
    using Uflux_pos[OF assms, of mag] log_Uflux[OF assms, of mag]
    by (simp add: flux_to_mag_def)
  moreover have "flux_to_mag zeroFlux flux = Inr (-2.5 * log 10 (flux / zeroFlux))
      \<and> Uflux zeroFlux (-2.5 * log 10 (flux / zeroFlux)) = flux" if "0 < flux" for flux
    using that Uflux_log[OF assms that] by (simp add: flux_to_mag_def)
  moreover have "flux_to_mag zeroFlux flux = Inl NonPositiveFlux \<longleftrightarrow> flux \<le> 0" for flux
    by (simp add: flux_to_mag_def)
  ultimately show ?thesis by blast
qed

theorem magnitude_flux_inverse_witness:
  "(0::real) < 3631
   \<and> flux_to_mag 3631 (Uflux 3631 5) = Inr 5
   \<and> flux_to_mag 3631 3631 = Inr 0
   \<and> Uflux 3631 0 = 3631
   \<and> flux_to_mag 3631 0 = Inl NonPositiveFlux
   \<and> flux_to_mag 3631 (-1) = Inl NonPositiveFlux"
  using magnitude_flux_inverse[of 3631 5] magnitude_flux_inverse[of 3631 0] by simp

subsection \<open>Rounding to binary64\<close>

lemma rne_error: "\<bar>of_int (rne y) - y\<bar> \<le> 1/2"
proof -
  have "of_int \<lfloor>y\<rfloor> \<le> y" "y < of_int \<lfloor>y\<rfloor> + 1" by linarith+
  then show ?thesis unfolding rne_def Let_def by auto
qed

text \<open>In the normal range the relative error of rounding is at most \<open>2^-53\<close>.\<close>

lemma rnd_relative_error:
  assumes "2 powr (-1022) \<le> \<bar>x\<bar>"
  shows "\<bar>rnd x - x\<bar> \<le> 2 powr (-53) * \<bar>x\<bar>"
proof -
  have "(0::real) < 2 powr (-1022)" by simp
  with assms have pos: "0 < \<bar>x\<bar>" by linarith
  then have nz: "x \<noteq> 0" by simp
  define e where "e = \<lfloor>log 2 \<bar>x\<bar>\<rfloor>"
  have "- 1022 \<le> log 2 \<bar>x\<bar>"
    using assms pos by (simp add: le_log_iff)
  then have "(- 1022::int) \<le> e" unfolding e_def by (simp add: le_floor_iff)
  then have ue: "ulp_exponent x = e - 52" unfolding ulp_exponent_def e_def by simp
  define U :: real where "U = 2 powr of_int (e - 52)"
  have Upos: "0 < U" unfolding U_def by simp
  have "of_int e \<le> log 2 \<bar>x\<bar>" unfolding e_def by simp
  then have elow: "2 powr of_int e \<le> \<bar>x\<bar>" using pos by (simp add: le_log_iff)
  have "rnd x - x = (of_int (rne (x / U)) - x / U) * U"
    using nz Upos by (simp add: rnd_def ue U_def field_simps)
  then have "\<bar>rnd x - x\<bar> = \<bar>of_int (rne (x / U)) - x / U\<bar> * U"
    using Upos by (simp add: abs_mult)
  also have "\<dots> \<le> 1/2 * U"
    using rne_error[of "x / U"] Upos by (intro mult_right_mono) simp_all
  also have "1/2 * U = 2 powr (-53) * 2 powr of_int e"
  proof -
    have "U = 2 powr (-52) * 2 powr of_int e"
      unfolding U_def using powr_add[of "2::real" "-52" "of_int e"] by simp
    moreover have "(2::real) powr (-52) = 2 * 2 powr (-53)"
      using powr_add[of "2::real" "1" "-53"] by simp
    ultimately show ?thesis by simp
  qed
  also have "\<dots> \<le> 2 powr (-53) * \<bar>x\<bar>"
    using elow by (intro mult_left_mono) simp_all
  finally show ?thesis .
qed

lemma rnd_0: "rnd 0 = 0"
  by (simp add: rnd_def)

lemma max_double_pos: "0 < max_double"
proof -
  have "(2::real) powr (-52) \<le> 2 powr 0" by (subst powr_le_cancel_iff) simp_all
  then have "(0::real) < 2 - 2 powr (-52)" by simp
  then show ?thesis unfolding max_double_def by (intro mult_pos_pos) simp_all
qed

lemma fl_0: "fl 0 = Finite 0"
  using max_double_pos by (simp add: fl_def rnd_0)

lemma unit_roundoff_facts:
  "(0::real) < 2 powr (-53)" "(2::real) powr (-53) \<le> 1/8"
  "(2::real) powr (-52) = 2 * 2 powr (-53)"
  "(2::real) powr (-106) = 2 powr (-53) * 2 powr (-53)"
  "(2::real) powr (-1021) = 2 * 2 powr (-1022)"
proof -
  show "(0::real) < 2 powr (-53)" by simp
  have "(2::real) powr (-53) \<le> 2 powr (-3)" by (subst powr_le_cancel_iff) simp_all
  also have "(2::real) powr (-3) = 1/8" by (simp add: powr_neg_numeral)
  finally show "(2::real) powr (-53) \<le> 1/8" .
  show "(2::real) powr (-52) = 2 * 2 powr (-53)"
    using powr_add[of "2::real" "1" "-53"] by simp
  show "(2::real) powr (-106) = 2 powr (-53) * 2 powr (-53)"
    using powr_add[of "2::real" "-53" "-53"] by simp
  show "(2::real) powr (-1021) = 2 * 2 powr (-1022)"
    using powr_add[of "2::real" "1" "-1022"] by simp
qed

lemma no_overflow:
  fixes u M a :: real
  assumes "0 \<le> u" "u \<le> 1/8" "0 \<le> M" "a \<le> (1 + u) * (1 + u) * M"
  shows "a \<le> (2 - 2 * u) * M"
proof -
  have "u * u \<le> 1/8 * u" using assms(1,2) by (intro mult_right_mono) simp_all
  then have "(1 + u) * (1 + u) \<le> 2 - 2 * u" using assms(1,2) by (simp add: algebra_simps)
  then have "(1 + u) * (1 + u) * M \<le> (2 - 2 * u) * M" using assms(3) by (intro mult_right_mono)
  with assms(4) show ?thesis by linarith
qed

lemma fl_normal:
  assumes "2 powr (-1022) \<le> \<bar>x\<bar>" "\<bar>x\<bar> \<le> (1 + 2 powr (-53)) * 2 powr 1023"
  shows "fl x = Finite (rnd x)" "\<bar>rnd x - x\<bar> \<le> 2 powr (-53) * \<bar>x\<bar>"
proof -
  let ?u = "(2::real) powr (-53)"
  show err: "\<bar>rnd x - x\<bar> \<le> ?u * \<bar>x\<bar>" by (rule rnd_relative_error[OF assms(1)])
  then have "\<bar>rnd x\<bar> \<le> (1 + ?u) * \<bar>x\<bar>" by (simp add: algebra_simps)
  also have "\<dots> \<le> (1 + ?u) * ((1 + ?u) * 2 powr 1023)"
    using assms(2) by (intro mult_left_mono) simp_all
  finally have "\<bar>rnd x\<bar> \<le> (1 + ?u) * (1 + ?u) * 2 powr 1023" by (simp add: mult.assoc)
  then have "\<bar>rnd x\<bar> \<le> (2 - 2 * ?u) * 2 powr 1023"
    using unit_roundoff_facts(1,2) by (intro no_overflow) simp_all
  then have "\<bar>rnd x\<bar> \<le> max_double"
    unfolding max_double_def unit_roundoff_facts(3) .
  then show "fl x = Finite (rnd x)" by (simp add: fl_def)
qed

text \<open>The product of \<open>2^-600\<close> with itself underflows to zero.\<close>

lemma rnd_underflow: "rnd (2 powr (-1200)) = 0"
proof -
  have ue: "ulp_exponent (2 powr (-1200)) = -1074"
    by (simp add: ulp_exponent_def)
  have q: "(2::real) powr (-1200) / 2 powr (-1074) = 2 powr (-126)"
    using powr_diff[of "2::real" "-1200" "-1074"] by simp
  have lt: "(2::real) powr (-126) < 1/2"
  proof -
    have "(2::real) powr (-126) < 2 powr (-1)" by (subst powr_less_cancel_iff) simp_all
    also have "(2::real) powr (-1) = 1/2" by (simp add: powr_minus inverse_eq_divide)
    finally show ?thesis .
  qed
  have fl0: "\<lfloor>(2::real) powr (-126)\<rfloor> = 0"
    using lt by (intro floor_unique) simp_all
  have "rne (2 powr (-126)) = 0"
    using lt by (simp add: rne_def fl0)
  then show ?thesis by (simp add: rnd_def ue q)
qed

lemma normal_range_bounds:
  "(2::real) powr (-1022) \<le> 1" "(2::real) powr (-1021) \<le> 1" "(4::real) \<le> 2 powr 1023"
proof -
  have "(2::real) powr (-1022) \<le> 2 powr 0" by (subst powr_le_cancel_iff) simp_all
  then show "(2::real) powr (-1022) \<le> 1" by simp
  have "(2::real) powr (-1021) \<le> 2 powr 0" by (subst powr_le_cancel_iff) simp_all
  then show "(2::real) powr (-1021) \<le> 1" by simp
  have "(2::real) powr 2 \<le> 2 powr 1023" by (subst powr_le_cancel_iff) simp_all
  then show "(4::real) \<le> 2 powr 1023" by simp
qed

subsection \<open>Reddening and dereddening\<close>

text \<open>
  One entry: a product and a quotient, each rounded once, leave a relative error of at
  most \<open>2 * 2^-53 + 2^-106\<close>, provided neither underflows nor overflows.
\<close>

lemma roundtrip_scalar:
  assumes t: "t \<noteq> 0"
    and p1: "2 powr (-1022) \<le> \<bar>f * t\<bar>" and p2: "\<bar>f * t\<bar> \<le> 2 powr 1023"
    and f1: "2 powr (-1021) \<le> \<bar>f\<bar>" and f2: "\<bar>f\<bar> \<le> 2 powr 1023"
  shows "\<exists>v. true_divide (multiply (Finite f) t) t = Finite v
            \<and> \<bar>v - f\<bar> \<le> (2 powr (-52) + 2 powr (-106)) * \<bar>f\<bar>"
proof -
  let ?u = "(2::real) powr (-53)"
  let ?M = "(2::real) powr 1023"
  note u = unit_roundoff_facts
  define p where "p = rnd (f * t)"
  define q where "q = p / t"
  have "\<bar>f * t\<bar> \<le> (1 + ?u) * ?M"
  proof -
    have "?M \<le> (1 + ?u) * ?M" by (simp add: algebra_simps)
    with p2 show ?thesis by linarith
  qed
  from fl_normal[OF p1 this]
  have flp: "fl (f * t) = Finite p" and perr: "\<bar>p - f * t\<bar> \<le> ?u * \<bar>f * t\<bar>"
    unfolding p_def by simp_all
  have tpos: "0 < \<bar>t\<bar>" using t by simp
  have "q - f = (p - f * t) / t" using t by (simp add: q_def field_simps)
  then have "\<bar>q - f\<bar> = \<bar>p - f * t\<bar> / \<bar>t\<bar>" by simp
  also have "\<dots> \<le> (?u * \<bar>f * t\<bar>) / \<bar>t\<bar>"
    using perr tpos by (intro divide_right_mono) simp_all
  also have "\<dots> = ?u * \<bar>f\<bar>" using t by (simp add: abs_mult)
  finally have qerr: "\<bar>q - f\<bar> \<le> ?u * \<bar>f\<bar>" .
  have qhi: "\<bar>q\<bar> \<le> (1 + ?u) * \<bar>f\<bar>" using qerr by (simp add: algebra_simps)
  have qlo: "(1 - ?u) * \<bar>f\<bar> \<le> \<bar>q\<bar>" using qerr by (simp add: algebra_simps)
  have "2 powr (-1022) \<le> (1 - ?u) * (2 * 2 powr (-1022))"
  proof -
    have "1 \<le> (1 - ?u) * 2" using u(2) by simp
    then have "1 * 2 powr (-1022) \<le> ((1 - ?u) * 2) * 2 powr (-1022)"
      by (intro mult_right_mono) simp_all
    then show ?thesis by (simp add: mult.assoc)
  qed
  also have "\<dots> \<le> (1 - ?u) * \<bar>f\<bar>"
    using f1 u(2) unfolding u(5) by (intro mult_left_mono) simp_all
  also note qlo
  finally have q1: "2 powr (-1022) \<le> \<bar>q\<bar>" .
  have "(1 + ?u) * \<bar>f\<bar> \<le> (1 + ?u) * ?M" using f2 by (intro mult_left_mono) simp_all
  with qhi have q2: "\<bar>q\<bar> \<le> (1 + ?u) * ?M" by linarith
  define v where "v = rnd q"
  from fl_normal[OF q1 q2]
  have flq: "fl q = Finite v" and verr: "\<bar>v - q\<bar> \<le> ?u * \<bar>q\<bar>"
    unfolding v_def by simp_all
  have "?u * \<bar>q\<bar> \<le> ?u * ((1 + ?u) * \<bar>f\<bar>)" using qhi by (intro mult_left_mono) simp_all
  with verr have "\<bar>v - q\<bar> \<le> ?u * ((1 + ?u) * \<bar>f\<bar>)" by linarith
  with qerr have "\<bar>v - f\<bar> \<le> ?u * ((1 + ?u) * \<bar>f\<bar>) + ?u * \<bar>f\<bar>" by linarith
  also have "\<dots> = (2 powr (-52) + 2 powr (-106)) * \<bar>f\<bar>"
    unfolding u(3,4) by (simp add: algebra_simps)
  finally have "\<bar>v - f\<bar> \<le> (2 powr (-52) + 2 powr (-106)) * \<bar>f\<bar>" .
  moreover have "true_divide (multiply (Finite f) t) t = Finite v"
    using t flp flq by (simp add: multiply_def true_divide_def q_def)
  ultimately show ?thesis by blast
qed

lemma roundtrip_zero: "true_divide (multiply x t) 0 = NonFinite"
  by (cases "multiply x t") (simp_all add: true_divide_def)

lemma roundtrip_zero_flux: "t \<noteq> 0 \<Longrightarrow> true_divide (multiply (Finite 0) t) t = Finite 0"
  by (simp add: multiply_def true_divide_def fl_0)

lemma broadcast_not_ZeroTransmission: "broadcast f xs ys \<noteq> Inl ZeroTransmission"
  by (simp add: broadcast_def)

lemma redden_same_length:
  "length thru = length flux \<Longrightarrow> redden flux thru = Inr (map2 multiply flux thru)"
  by (simp add: redden_def broadcast_def)

lemma deredden_same_length:
  "length thru = length flux \<Longrightarrow> deredden flux thru = Inr (map2 true_divide flux thru)"
  by (simp add: deredden_def broadcast_def)

lemma roundtrip_nth:
  assumes "length thru = length flux" "i < length flux"
  shows "map2 true_divide (map2 multiply (map Finite flux) thru) thru ! i
          = true_divide (multiply (Finite (flux ! i)) (thru ! i)) (thru ! i)"
  using assms by simp

text \<open>
  Claim C2, as the notebook has it. For every flux array and every transmission array on
  the same grid, multiplying by the transmission and then dividing by it gives an array of
  the same length. At every wavelength where the transmission is not zero, and where the
  flux and its product with the transmission stay in the normal range of doubles (the
  flux between \<open>2^-1021\<close> and \<open>2^1023\<close> in magnitude, the product between \<open>2^-1022\<close> and
  \<open>2^1023\<close>), the result is the original flux within floating tolerance: a relative error
  of at most \<open>2^-52 + 2^-106\<close>; a flux of zero comes back as zero. Dividing never fails
  with \<open>ZeroTransmission\<close>: where the transmission is exactly zero the entry of the result
  is not a finite number.
\<close>

theorem redden_deredden_roundtrip:
  assumes "length thru = length flux"
  shows "(\<exists>reddened out.
            redden (map Finite flux) thru = Inr reddened
          \<and> deredden reddened thru = Inr out
          \<and> length out = length flux
          \<and> (\<forall>i<length flux.
                thru ! i \<noteq> 0
                \<and> 2 powr (-1022) \<le> \<bar>flux ! i * thru ! i\<bar> \<and> \<bar>flux ! i * thru ! i\<bar> \<le> 2 powr 1023
                \<and> 2 powr (-1021) \<le> \<bar>flux ! i\<bar> \<and> \<bar>flux ! i\<bar> \<le> 2 powr 1023
                \<longrightarrow> (\<exists>v. out ! i = Finite v
                       \<and> \<bar>v - flux ! i\<bar> \<le> (2 powr (-52) + 2 powr (-106)) * \<bar>flux ! i\<bar>))
          \<and> (\<forall>i<length flux. thru ! i \<noteq> 0 \<and> flux ! i = 0 \<longrightarrow> out ! i = Finite 0)
          \<and> (\<forall>i<length flux. thru ! i = 0 \<longrightarrow> out ! i = NonFinite))
       \<and> (\<forall>spectrum. deredden spectrum thru \<noteq> Inl ZeroTransmission)"
proof -
  let ?r = "map2 multiply (map Finite flux) thru"
  let ?out = "map2 true_divide ?r thru"
  have len0: "length thru = length (map Finite flux)" using assms by simp
  have len: "length thru = length ?r" using assms by simp
  have nth: "?out ! i = true_divide (multiply (Finite (flux ! i)) (thru ! i)) (thru ! i)"
    if "i < length flux" for i
    by (rule roundtrip_nth[OF assms that])
  have "redden (map Finite flux) thru = Inr ?r" by (rule redden_same_length[OF len0])
  moreover have "deredden ?r thru = Inr ?out" by (rule deredden_same_length[OF len])
  moreover have "length ?out = length flux" using assms by simp
  moreover have "\<exists>v. ?out ! i = Finite v
        \<and> \<bar>v - flux ! i\<bar> \<le> (2 powr (-52) + 2 powr (-106)) * \<bar>flux ! i\<bar>"
    if "i < length flux" "thru ! i \<noteq> 0"
      "2 powr (-1022) \<le> \<bar>flux ! i * thru ! i\<bar>" "\<bar>flux ! i * thru ! i\<bar> \<le> 2 powr 1023"
      "2 powr (-1021) \<le> \<bar>flux ! i\<bar>" "\<bar>flux ! i\<bar> \<le> 2 powr 1023" for i
    unfolding nth[OF that(1)] by (rule roundtrip_scalar[OF that(2-6)])
  moreover have "?out ! i = Finite 0" if "i < length flux" "thru ! i \<noteq> 0" "flux ! i = 0" for i
    unfolding nth[OF that(1)] that(3) by (rule roundtrip_zero_flux[OF that(2)])
  moreover have "?out ! i = NonFinite" if "i < length flux" "thru ! i = 0" for i
    unfolding nth[OF that(1)] that(2) by (rule roundtrip_zero)
  moreover have "\<forall>spectrum. deredden spectrum thru \<noteq> Inl ZeroTransmission"
    by (simp add: deredden_def broadcast_not_ZeroTransmission)
  ultimately show ?thesis by blast
qed

theorem redden_deredden_roundtrip_witness:
  "length [1/2, 0, 1/4::real] = length [3, 4, 0::real]
   \<and> (1/2::real) \<noteq> 0
   \<and> 2 powr (-1022) \<le> \<bar>3 * (1/2)::real\<bar> \<and> \<bar>3 * (1/2)::real\<bar> \<le> 2 powr 1023
   \<and> 2 powr (-1021) \<le> \<bar>3::real\<bar> \<and> \<bar>3::real\<bar> \<le> 2 powr 1023
   \<and> (\<exists>reddened out. redden [Finite 3, Finite 4, Finite 0] [1/2, 0, 1/4] = Inr reddened
        \<and> deredden reddened [1/2, 0, 1/4] = Inr out
        \<and> length out = 3
        \<and> (\<exists>v. out ! 0 = Finite v \<and> \<bar>v - 3\<bar> \<le> (2 powr (-52) + 2 powr (-106)) * 3)
        \<and> out ! 1 = NonFinite
        \<and> out ! 2 = Finite 0)"
proof -
  let ?flux = "[3, 4, 0::real]"
  let ?thru = "[1/2, 0, 1/4::real]"
  have range: "2 powr (-1022) \<le> \<bar>3 * (1/2)::real\<bar>" "\<bar>3 * (1/2)::real\<bar> \<le> 2 powr 1023"
    "2 powr (-1021) \<le> \<bar>3::real\<bar>" "\<bar>3::real\<bar> \<le> 2 powr 1023"
    using normal_range_bounds by simp_all
  from redden_deredden_roundtrip[of ?thru ?flux]
  obtain reddened out where r: "redden [Finite 3, Finite 4, Finite 0] ?thru = Inr reddened"
    and d: "deredden reddened ?thru = Inr out"
    and l: "length out = 3"
    and close: "\<forall>i<3. ?thru ! i \<noteq> 0
                \<and> 2 powr (-1022) \<le> \<bar>?flux ! i * ?thru ! i\<bar>
                \<and> \<bar>?flux ! i * ?thru ! i\<bar> \<le> 2 powr 1023
                \<and> 2 powr (-1021) \<le> \<bar>?flux ! i\<bar> \<and> \<bar>?flux ! i\<bar> \<le> 2 powr 1023
                \<longrightarrow> (\<exists>v. out ! i = Finite v
                       \<and> \<bar>v - ?flux ! i\<bar> \<le> (2 powr (-52) + 2 powr (-106)) * \<bar>?flux ! i\<bar>)"
    and zero_flux: "\<forall>i<3. ?thru ! i \<noteq> 0 \<and> ?flux ! i = 0 \<longrightarrow> out ! i = Finite 0"
    and zero: "\<forall>i<3. ?thru ! i = 0 \<longrightarrow> out ! i = NonFinite"
    by auto
  from close[rule_format, of 0] range
  have "\<exists>v. out ! 0 = Finite v \<and> \<bar>v - 3\<bar> \<le> (2 powr (-52) + 2 powr (-106)) * 3"
    by simp
  moreover from zero[rule_format, of 1] have "out ! 1 = NonFinite" by simp
  moreover from zero_flux[rule_format, of 2] have "out ! 2 = Finite 0" by simp
  ultimately show ?thesis using r d l range by auto
qed

text \<open>
  The claim as the spec words it asks for a failure with \<open>ZeroTransmission\<close> as soon as
  one transmission value is exactly zero: the division of cell 30 returns an array
  there. It also promises the round trip at every nonzero transmission: at the flux
  \<open>2^-600\<close> and the transmission \<open>2^-600\<close> the product underflows, and the round trip
  returns 0, not a value near the flux.
\<close>

theorem deredden_zero_transmission_counterexample:
  "(0::real) \<in> set [0]
   \<and> deredden [Finite 4] [0] = Inr [NonFinite]
   \<and> deredden [Finite 4] [0] \<noteq> Inl ZeroTransmission
   \<and> (2::real) powr (-600) \<noteq> 0
   \<and> redden [Finite (2 powr (-600))] [2 powr (-600)] = Inr [Finite 0]
   \<and> deredden [Finite 0] [2 powr (-600)] = Inr [Finite 0]"
proof -
  have "(2::real) powr (-600) * 2 powr (-600) = 2 powr (-1200)"
    using powr_add[of "2::real" "-600" "-600"] by simp
  then have "fl (2 powr (-600) * 2 powr (-600)) = Finite 0"
    using max_double_pos by (simp add: fl_def rnd_underflow)
  then show ?thesis
    by (simp add: deredden_def redden_def broadcast_def true_divide_def multiply_def fl_0)
qed

subsection \<open>Reddening curves from A(V) and from E(B-V)\<close>

text \<open>
  Claim C10. For every law, every nonzero \<open>R(V)\<close> in its valid range, every \<open>A(V)\<close> and
  all wavelengths in the law's range, \<open>extinguish\<close> with \<open>E(B-V) = A(V) / R(V)\<close> (the
  argument \<^verbatim>\<open>Av / ext.Rv\<close> of cell 40) returns \<open>10^(-0.4 * A(V) * A(\<lambda>)/A(V))\<close>; at a
  wavelength where \<open>A(\<lambda>)/A(V)\<close> is 1 the transmission \<open>t\<close> has \<open>-2.5 * log10 t = A(V)\<close>,
  that is, exactly \<open>A(V)\<close> magnitudes of visual extinction.
\<close>

theorem extinguish_Av_over_Rv:
  assumes "fst (Rv_range l) \<le> Rv" "Rv \<le> snd (Rv_range l)" "Rv \<noteq> 0"
    and "\<forall>w \<in> set wavelengths. fst (wavelength_range l) \<le> w \<and> w \<le> snd (wavelength_range l)"
  shows "extinguish l Rv (Av / Rv) wavelengths
           = Inr (map (\<lambda>w. 10 powr (-0.4 * Av * axav l Rv w)) wavelengths)
       \<and> (\<forall>w \<in> set wavelengths. axav l Rv w = 1 \<longrightarrow>
             (\<exists>t. extinguish l Rv (Av / Rv) [w] = Inr [t] \<and> -2.5 * log 10 t = Av))"
proof -
  have ev: "evaluate l Rv ws = Inr (map (axav l Rv) ws)" if "set ws \<subseteq> set wavelengths" for ws
    using assms that by (auto simp: evaluate_def not_less)
  have "extinguish l Rv (Av / Rv) ws = Inr (map (\<lambda>w. 10 powr (-0.4 * Av * axav l Rv w)) ws)"
    if "set ws \<subseteq> set wavelengths" for ws
    using ev[OF that] assms(3) by (simp add: extinguish_def comp_def)
  then show ?thesis by (auto simp: log_powr)
qed

theorem extinguish_Av_over_Rv_witness:
  "fst (Rv_range inverse_wavelength_law) \<le> 31/10
   \<and> 31/10 \<le> snd (Rv_range inverse_wavelength_law)
   \<and> (31/10::real) \<noteq> 0
   \<and> fst (wavelength_range inverse_wavelength_law) \<le> 55/100
   \<and> 11/10 \<le> snd (wavelength_range inverse_wavelength_law)
   \<and> axav inverse_wavelength_law (31/10) (55/100) = 1
   \<and> extinguish inverse_wavelength_law (31/10) (2 / (31/10)) [55/100, 11/10]
       = Inr [10 powr (-0.8), 10 powr (-0.4)]
   \<and> (\<exists>t. extinguish inverse_wavelength_law (31/10) (2 / (31/10)) [55/100] = Inr [t]
          \<and> -2.5 * log 10 t = 2)"
  using extinguish_Av_over_Rv[of inverse_wavelength_law "31/10" "[55/100, 11/10]" 2]
  by (simp add: inverse_wavelength_law_def)

subsection \<open>Extinction and color excess\<close>

text \<open>
  Claim C5. The extinction in a band is the effective magnitude with dust minus the
  effective magnitude without dust; the color excess is the extinction in the band minus
  the extinction in the reference band; and at the reference band itself the color excess
  is exactly zero, whatever the two magnitudes (and so whatever the source) are.
\<close>

theorem color_excess_reference_band_zero:
  "Av_calc v_dust v_clean = v_dust - v_clean
   \<and> color_excess b_dust b_clean (Av_calc v_dust v_clean)
       = Av_calc b_dust b_clean - Av_calc v_dust v_clean
   \<and> color_excess v_dust v_clean (Av_calc v_dust v_clean) = 0"
  by (simp add: Av_calc_def color_excess_def)

end
